theory Spec2Isabelle
  imports Main
begin

section \<open>The note page of annoote: src/app/[noteID]/page.tsx\<close>

text \<open>
  The page is one React function component, \<open>NotePage\<close>. Its seven \<open>useState\<close> cells
  are the component state; its handlers are asynchronous: each runs up to its \<open>await\<close>
  (or up to the \<open>then\<close> of the clipboard promise), and the rest of the handler runs
  when the promise settles. In between, the browser may deliver any other event. The
  embedding makes this explicit: a handler is split into the part that runs at the click
  and the part that runs at the settlement, and a run of the component is a list of events.
\<close>

subsection \<open>JavaScript values read from the document store\<close>

text \<open>
  \<open>noteDoc.data()\<close> is untyped (\<open>DocumentData\<close>), so the two fields the page reads can hold
  any stored value, and \<open>noteData?.content\<close> is \<open>undefined\<close> when the field is missing.
  Numbers are kept as integers plus \<open>NaN\<close>: the page only tests them for truthiness.
  \<open>JTimestamp d\<close> is a store timestamp; \<open>d\<close> is the calendar date that \<open>toDate()\<close> yields.
\<close>

record jsdate =
  year :: nat
  month :: nat
  day :: nat

datatype jsval =
    JUndefined
  | JNull
  | JBool bool
  | JNum int
  | JNaN
  | JStr string
  | JTimestamp jsdate

fun truthy :: "jsval \<Rightarrow> bool" where
  "truthy JUndefined = False"
| "truthy JNull = False"
| "truthy (JBool b) = b"
| "truthy (JNum n) = (n \<noteq> 0)"
| "truthy JNaN = False"
| "truthy (JStr s) = (s \<noteq> [])"
| "truthy (JTimestamp d) = True"

text \<open>The JavaScript operator \<open>a || b\<close>.\<close>

definition js_or :: "jsval \<Rightarrow> jsval \<Rightarrow> jsval" where
  "js_or a b = (if truthy a then a else b)"

text \<open>The document of the collection \<open>notes\<close> at \<open>noteID\<close>: the fields \<open>content\<close> and \<open>createdAt\<close>.\<close>

record noteData =
  content :: jsval
  createdAtTimestamp :: jsval

subsection \<open>Date formatting\<close>

fun digit :: "nat \<Rightarrow> char" where
  "digit n = ''0123456789'' ! (n mod 10)"

function show_nat :: "nat \<Rightarrow> string" where
  "show_nat n = (if n < 10 then [digit n] else show_nat (n div 10) @ [digit n])"
  by pat_completeness auto
termination
  by (relation "measure id") auto

declare show_nat.simps [simp del]

definition addLeadingZeros :: "nat \<Rightarrow> nat \<Rightarrow> string" where
  "addLeadingZeros n w = replicate (w - length (show_nat n)) (CHR ''0'') @ show_nat n"

text \<open>
  Modelled from the spec: the library call \<open>format(date, "yyyy-MM-dd")\<close> of date-fns, which
  is not part of the repository. The spec has it yield a calendar date string
  \<open>YYYY-MM-DD\<close>: the year padded to four digits, the month and the day of the month padded
  to two, joined by hyphens.
\<close>

definition format_yyyy_MM_dd :: "jsdate \<Rightarrow> string" where
  "format_yyyy_MM_dd d =
     addLeadingZeros (year d) 4 @ ''-'' @ addLeadingZeros (month d) 2 @ ''-'' @
     addLeadingZeros (day d) 2"

subsection \<open>The component state and its surroundings\<close>

text \<open>
  The first seven fields are the \<open>useState\<close> cells of \<open>NotePage\<close>, \<open>noteID\<close> is its
  prop. The rest is what the handlers act on outside the component: the \<open>notes\<close>
  collection of the store, the page URL, the clipboard, the calls made to \<open>router.push\<close>,
  \<open>alert\<close> and \<open>console.error\<close>, the store and clipboard calls that are in flight,
  whether the page is still mounted, whether the browser offers \<open>navigator.clipboard\<close>
  at all (it does so only in a secure context), and the errors that have escaped a
  handler uncaught.
\<close>

record world =
  noteContent :: jsval
  createdAt :: "string option"
  loading :: bool
  isEditing :: bool
  showDropdown :: bool
  showModal :: bool
  showCopyModal :: bool
  noteID :: string
  store :: "string \<Rightarrow> noteData option"
  href :: string
  clipboard :: "string option"
  pushes :: "string list"
  alerts :: "string list"
  errors :: "string list"
  fetchPending :: bool
  updatePending :: "jsval list"
  deletePending :: nat
  clipboardPending :: "string list"
  mounted :: bool
  clipboardAPI :: bool
  uncaught :: "string list"

text \<open>
  Mounting: the initial values of the \<open>useState\<close> calls (lines 18 to 24), and the effect
  of lines 29 to 57 has called \<open>fetchNote\<close>, whose \<open>getDoc\<close> is in flight. The last
  argument tells whether the browser offers the Clipboard API.
\<close>

definition initial ::
  "string \<Rightarrow> string \<Rightarrow> (string \<Rightarrow> noteData option) \<Rightarrow> bool \<Rightarrow> world" where
  "initial nid url st api =
     \<lparr> noteContent = JStr [], createdAt = None, loading = True, isEditing = False,
       showDropdown = False, showModal = False, showCopyModal = False,
       noteID = nid, store = st, href = url, clipboard = None,
       pushes = [], alerts = [], errors = [],
       fetchPending = True, updatePending = [], deletePending = 0,
       clipboardPending = [], mounted = True, clipboardAPI = api, uncaught = [] \<rparr>"

text \<open>How a store or clipboard call ends: the promise is fulfilled or it is rejected.\<close>

datatype outcome = Fulfilled | Rejected

subsection \<open>The handlers\<close>

text \<open>
  \<open>fetchNote\<close> after \<open>await getDoc\<close> (lines 32 to 53). A truthy \<open>createdAt\<close> that is not a
  timestamp has no \<open>toDate\<close>: the call throws a TypeError inside the \<open>try\<close>, after
  \<open>setNoteContent\<close> has run, and the \<open>catch\<close> branch logs and navigates.
\<close>

definition fetchNote_catch :: "world \<Rightarrow> world" where
  "fetchNote_catch s =
     s\<lparr>errors := errors s @ [''Error fetching note:''], pushes := pushes s @ [''/'']\<rparr>"

definition fetchNote_try :: "outcome \<Rightarrow> world \<Rightarrow> world" where
  "fetchNote_try r s =
     (case r of
        Rejected \<Rightarrow> fetchNote_catch s
      | Fulfilled \<Rightarrow>
          (case store s (noteID s) of
             None \<Rightarrow> s\<lparr>pushes := pushes s @ [''/'']\<rparr>
           | Some nd \<Rightarrow>
               (let s1 = s\<lparr>noteContent := js_or (content nd) (JStr [])\<rparr>;
                    ts = createdAtTimestamp nd
                in if truthy ts
                   then (case ts of
                           JTimestamp d \<Rightarrow> s1\<lparr>createdAt := Some (format_yyyy_MM_dd d)\<rparr>
                         | _ \<Rightarrow> fetchNote_catch s1)
                   else s1\<lparr>createdAt := Some ''Unknown''\<rparr>)))"

definition fetchNote_settled :: "outcome \<Rightarrow> world \<Rightarrow> world" where
  "fetchNote_settled r s =
     (if fetchPending s
      then (fetchNote_try r (s\<lparr>fetchPending := False\<rparr>))\<lparr>loading := False\<rparr>
      else s)"

text \<open>
  \<open>handleEditOrSave\<close> (lines 82 to 97) up to its \<open>await\<close>: the update is issued with the
  \<open>noteContent\<close> of the render the click happened in.
\<close>

definition handleEditOrSave :: "world \<Rightarrow> world" where
  "handleEditOrSave s =
     (if isEditing s
      then s\<lparr>loading := True, updatePending := updatePending s @ [noteContent s]\<rparr>
      else s\<lparr>isEditing := True\<rparr>)"

text \<open>
  The rest of \<open>handleEditOrSave\<close>, when \<open>updateDoc\<close> settles. A fulfilled update has
  replaced the \<open>content\<close> field of the document; \<open>updateDoc\<close> never creates a document.
\<close>

definition updateDoc_settled :: "outcome \<Rightarrow> world \<Rightarrow> world" where
  "updateDoc_settled r s =
     (case updatePending s of
        [] \<Rightarrow> s
      | c # rest \<Rightarrow>
          (case r of
             Fulfilled \<Rightarrow>
               s\<lparr>updatePending := rest,
                 store := (store s)(noteID s :=
                    map_option (\<lambda>nd. nd\<lparr>content := c\<rparr>) (store s (noteID s))),
                 isEditing := False, loading := False\<rparr>
           | Rejected \<Rightarrow>
               s\<lparr>updatePending := rest,
                 errors := errors s @ [''Error saving note:''],
                 alerts := alerts s @ [''Failed to save the note.''],
                 loading := False\<rparr>))"

text \<open>
  \<open>handleCopyURL\<close> (lines 99 to 105) and the two callbacks of its \<open>then\<close>. Line 100 reads
  \<open>navigator.clipboard.writeText\<close> with no guard and outside any \<open>try\<close>: where
  \<open>navigator.clipboard\<close> is undefined the handler throws a TypeError there, before
  \<open>setShowDropdown(false)\<close> of line 104 is reached. No write is issued, no callback is
  registered, no alert is raised, and the menu is left as it is.
\<close>

definition handleCopyURL :: "world \<Rightarrow> world" where
  "handleCopyURL s =
     (if clipboardAPI s
      then s\<lparr>clipboardPending := clipboardPending s @ [href s], showDropdown := False\<rparr>
      else s\<lparr>uncaught := uncaught s @ [''TypeError'']\<rparr>)"

definition writeText_settled :: "outcome \<Rightarrow> world \<Rightarrow> world" where
  "writeText_settled r s =
     (case clipboardPending s of
        [] \<Rightarrow> s
      | t # rest \<Rightarrow>
          (case r of
             Fulfilled \<Rightarrow>
               s\<lparr>clipboardPending := rest, clipboard := Some t, showCopyModal := True\<rparr>
           | Rejected \<Rightarrow>
               s\<lparr>clipboardPending := rest, alerts := alerts s @ [''Failed to copy URL.'']\<rparr>))"

text \<open>\<open>handleDelete\<close> (lines 107 to 119) up to its \<open>await\<close>, and when \<open>deleteDoc\<close> settles.\<close>

definition handleDelete :: "world \<Rightarrow> world" where
  "handleDelete s = s\<lparr>loading := True, deletePending := Suc (deletePending s)\<rparr>"

definition deleteDoc_settled :: "outcome \<Rightarrow> world \<Rightarrow> world" where
  "deleteDoc_settled r s =
     (case deletePending s of
        0 \<Rightarrow> s
      | Suc n \<Rightarrow>
          (case r of
             Fulfilled \<Rightarrow>
               s\<lparr>deletePending := n,
                 store := (store s)(noteID s := None),
                 pushes := pushes s @ [''/''],
                 loading := False, showModal := False\<rparr>
           | Rejected \<Rightarrow>
               s\<lparr>deletePending := n,
                 errors := errors s @ [''Error deleting note:''],
                 alerts := alerts s @ [''Failed to delete the note.''],
                 loading := False, showModal := False\<rparr>))"

text \<open>The inline handlers of the JSX (lines 152, 67, 169 to 172, 204, 228, 185).\<close>

definition toggleDropdown :: "world \<Rightarrow> world" where
  "toggleDropdown s = s\<lparr>showDropdown := \<not> showDropdown s\<rparr>"

definition handleClickOutside :: "world \<Rightarrow> world" where
  "handleClickOutside s = s\<lparr>showDropdown := False\<rparr>"

definition requestDelete :: "world \<Rightarrow> world" where
  "requestDelete s = s\<lparr>showModal := True, showDropdown := False\<rparr>"

definition cancelDelete :: "world \<Rightarrow> world" where
  "cancelDelete s = s\<lparr>showModal := False\<rparr>"

definition dismissCopy :: "world \<Rightarrow> world" where
  "dismissCopy s = s\<lparr>showCopyModal := False\<rparr>"

definition onChange :: "string \<Rightarrow> world \<Rightarrow> world" where
  "onChange v s = s\<lparr>noteContent := JStr v\<rparr>"

subsection \<open>What is rendered\<close>

text \<open>
  The JSX of lines 121 to 242, as far as it depends on the state. The body is the
  textarea holding \<open>noteContent\<close> while editing, and otherwise the HTML that \<open>marked\<close>
  makes of \<open>noteContent\<close>; the transform itself is left to the library.
\<close>

datatype body = Textarea jsval | Markdown jsval

record view =
  heading :: string
  dateText :: string
  editSaveDisabled :: bool
  editSaveLabel :: string
  noteBody :: body
  optionsMenu :: bool
  deleteConfirm :: bool
  deleteDisabled :: bool
  copyConfirm :: bool

definition render :: "world \<Rightarrow> view" where
  "render s =
     \<lparr> heading = noteID s,
       dateText = (case createdAt s of
                     None \<Rightarrow> ''Loading...''
                   | Some t \<Rightarrow> if t = [] then ''Loading...'' else t),
       editSaveDisabled = loading s,
       editSaveLabel = (if isEditing s then ''Save'' else ''Edit''),
       noteBody = (if isEditing s then Textarea (noteContent s) else Markdown (noteContent s)),
       optionsMenu = showDropdown s,
       deleteConfirm = showModal s,
       deleteDisabled = loading s,
       copyConfirm = showCopyModal s \<rparr>"

subsection \<open>Events\<close>

text \<open>
  A user event reaches its handler only if the page is mounted and the control is
  rendered and not disabled: the two items of the options menu exist only while
  \<open>showDropdown\<close>, the buttons of a dialog only while it is shown, the textarea only while
  editing, the outside-click listener is registered only while \<open>showDropdown\<close>, and the
  Edit/Save and the confirming Delete button carry \<open>disabled={loading}\<close>. A settlement
  runs the rest of its handler as written: the source has no cleanup and no test of
  whether the page is still there, so the setter calls are made all the same, and the
  cells record them. What the rendering library does with a setter call on a page it has
  unmounted is not the component's doing and is not modelled. \<open>NavigateAway\<close> is the page
  being left, and \<open>StoreWrite\<close> a write to the store by anybody else.
\<close>

datatype event =
    ClickEditSave
  | ClickOptions
  | MouseDownOutside
  | ClickCopyURL
  | ClickDeleteItem
  | ClickCancel
  | ClickConfirmDelete
  | ClickCopyOK
  | Change string
  | FetchSettled outcome
  | UpdateSettled outcome
  | DeleteSettled outcome
  | ClipboardSettled outcome
  | NavigateAway
  | StoreWrite string "noteData option"

fun step :: "world \<Rightarrow> event \<Rightarrow> world" where
  "step s ClickEditSave =
     (if mounted s \<and> \<not> editSaveDisabled (render s) then handleEditOrSave s else s)"
| "step s ClickOptions = (if mounted s then toggleDropdown s else s)"
| "step s MouseDownOutside =
     (if mounted s \<and> showDropdown s then handleClickOutside s else s)"
| "step s ClickCopyURL =
     (if mounted s \<and> optionsMenu (render s) then handleCopyURL s else s)"
| "step s ClickDeleteItem =
     (if mounted s \<and> optionsMenu (render s) then requestDelete s else s)"
| "step s ClickCancel =
     (if mounted s \<and> deleteConfirm (render s) then cancelDelete s else s)"
| "step s ClickConfirmDelete =
     (if mounted s \<and> deleteConfirm (render s) \<and> \<not> deleteDisabled (render s)
      then handleDelete s else s)"
| "step s ClickCopyOK =
     (if mounted s \<and> copyConfirm (render s) then dismissCopy s else s)"
| "step s (Change v) = (if mounted s \<and> isEditing s then onChange v s else s)"
| "step s (FetchSettled r) = fetchNote_settled r s"
| "step s (UpdateSettled r) = updateDoc_settled r s"
| "step s (DeleteSettled r) = deleteDoc_settled r s"
| "step s (ClipboardSettled r) = writeText_settled r s"
| "step s NavigateAway = s\<lparr>mounted := False\<rparr>"
| "step s (StoreWrite k d) = s\<lparr>store := (store s)(k := d)\<rparr>"

definition run :: "world \<Rightarrow> event list \<Rightarrow> world" where
  "run s es = foldl step s es"

subsection \<open>The lifecycle and the overlays of the specification\<close>

text \<open>
  The specification speaks of one lifecycle value; the page has the flags \<open>loading\<close> and
  \<open>isEditing\<close>. While \<open>loading\<close>, the call in flight tells loading, saving and deleting
  apart.
\<close>

datatype lifecycle = Loading | Viewing | Editing | Saving | Deleting

definition lifecycle_of :: "world \<Rightarrow> lifecycle" where
  "lifecycle_of s =
     (if loading s
      then (if 0 < deletePending s then Deleting
            else if updatePending s \<noteq> [] then Saving
            else Loading)
      else if isEditing s then Editing else Viewing)"

definition busy :: "lifecycle \<Rightarrow> bool" where
  "busy l = (l = Loading \<or> l = Saving \<or> l = Deleting)"


definition mutations_in_flight :: "world \<Rightarrow> nat" where
  "mutations_in_flight s = length (updatePending s) + deletePending s"

text \<open>
  The discipline the two \<open>disabled={loading}\<close> attributes keep: while the first fetch is
  in flight nothing has been shown or edited yet and no mutation has been issued; later,
  \<open>loading\<close> is set exactly while one update or delete is in flight.
\<close>

definition single_flight :: "world \<Rightarrow> bool" where
  "single_flight s =
     (if fetchPending s
      then loading s \<and> \<not> isEditing s \<and> noteContent s = JStr [] \<and> createdAt s = None \<and>
           updatePending s = [] \<and> deletePending s = 0
      else if loading s then mutations_in_flight s = 1 else mutations_in_flight s = 0)"

text \<open>
  Events that may come between the click that issues a store call and its settlement
  without touching the note: every user event except typing, the settlement of a
  clipboard write, and leaving the page.
\<close>

fun aside :: "event \<Rightarrow> bool" where
  "aside (Change v) = False"
| "aside (FetchSettled r) = False"
| "aside (UpdateSettled r) = False"
| "aside (DeleteSettled r) = False"
| "aside (StoreWrite k d) = False"
| "aside e = True"

text \<open>What of the world such an event leaves alone while \<open>loading\<close> is set.\<close>

definition note_part ::
  "world \<Rightarrow> bool \<times> bool \<times> jsval \<times> string option \<times> jsval list \<times> nat \<times> bool \<times> string list \<times>
     (string \<Rightarrow> noteData option) \<times> string list" where
  "note_part s =
     (loading s, isEditing s, noteContent s, createdAt s, updatePending s, deletePending s,
      fetchPending s, pushes s, store s, errors s)"

text \<open>
  Any event but the settlement of the update, and what of the world every such event
  leaves alone while an update is the one call in flight.
\<close>

fun not_update_settled :: "event \<Rightarrow> bool" where
  "not_update_settled (UpdateSettled r) = False"
| "not_update_settled e = True"

definition flight_part :: "world \<Rightarrow> bool \<times> bool \<times> jsval list \<times> nat \<times> bool" where
  "flight_part s = (loading s, isEditing s, updatePending s, deletePending s, fetchPending s)"

text \<open>The form \<open>YYYY-MM-DD\<close> of the specification: ten characters, digits around two hyphens.\<close>

definition is_digit :: "char \<Rightarrow> bool" where
  "is_digit c = (c \<in> set ''0123456789'')"

definition is_yyyy_MM_dd :: "string \<Rightarrow> bool" where
  "is_yyyy_MM_dd t =
     (length t = 10 \<and> list_all is_digit (take 4 t) \<and> t ! 4 = CHR ''-'' \<and>
      list_all is_digit (take 2 (drop 5 t)) \<and> t ! 7 = CHR ''-'' \<and>
      list_all is_digit (drop 8 t))"

subsection \<open>A note to run the page on\<close>

definition hello_note :: noteData where
  "hello_note =
     \<lparr>content = JStr ''hello'',
      createdAtTimestamp = JTimestamp \<lparr>year = 2024, month = 3, day = 7\<rparr>\<rparr>"

definition hello_store :: "string \<Rightarrow> noteData option" where
  "hello_store = (\<lambda>k. if k = ''abc123'' then Some hello_note else None)"

definition hello_page :: world where
  "hello_page = initial ''abc123'' ''https://annoote.example/abc123'' hello_store True"

text \<open>The same note on a page served over plain http: there is no \<open>navigator.clipboard\<close>.\<close>

definition plain_page :: world where
  "plain_page = initial ''abc123'' ''http://annoote.example/abc123'' hello_store False"

text \<open>A document that has neither field, as stored by someone else.\<close>

definition blank_store :: "string \<Rightarrow> noteData option" where
  "blank_store =
     (\<lambda>k. if k = ''abc123''
          then Some \<lparr>content = JUndefined, createdAtTimestamp = JUndefined\<rparr> else None)"

text \<open>A state about to receive that document while still holding other content.\<close>

definition stale_page :: world where
  "stale_page = (initial ''abc123'' ''u'' blank_store True)\<lparr>noteContent := JStr ''stale''\<rparr>"

section \<open>Basic facts\<close>

lemmas handler_defs =
  fetchNote_settled_def fetchNote_try_def fetchNote_catch_def handleEditOrSave_def
  updateDoc_settled_def handleCopyURL_def writeText_settled_def handleDelete_def
  deleteDoc_settled_def toggleDropdown_def handleClickOutside_def requestDelete_def
  cancelDelete_def dismissCopy_def onChange_def render_def

lemmas example_defs =
  hello_page_def plain_page_def stale_page_def hello_store_def hello_note_def blank_store_def
  initial_def

lemma run_Nil [simp]: "run s [] = s"
  by (simp add: run_def)

lemma run_Cons [simp]: "run s (e # es) = run (step s e) es"
  by (simp add: run_def)

lemma run_append: "run s (es @ es') = run (run s es) es'"
  by (simp add: run_def)

lemma run_snoc: "run s (es @ [e]) = step (run s es) e"
  by (simp add: run_def)

lemma single_flight_initial: "single_flight (initial nid url st api)"
  by (simp add: single_flight_def initial_def)

lemma single_flight_step: "single_flight s \<Longrightarrow> single_flight (step s e)"
  by (cases e)
     (auto simp: single_flight_def mutations_in_flight_def handler_defs Let_def
           split: if_splits option.splits outcome.splits list.splits nat.splits jsval.splits)

lemma single_flight_run: "single_flight s \<Longrightarrow> single_flight (run s es)"
  by (induction es arbitrary: s) (simp_all add: single_flight_step)

lemma single_flight_reachable: "single_flight (run (initial nid url st api) es)"
  by (rule single_flight_run [OF single_flight_initial])

lemma noteID_step [simp]: "noteID (step s e) = noteID s"
  by (cases e)
     (auto simp: handler_defs Let_def
           split: if_splits option.splits outcome.splits list.splits nat.splits jsval.splits)

lemma noteID_run [simp]: "noteID (run s es) = noteID s"
  by (induction es arbitrary: s) simp_all

subsection \<open>The formatted date\<close>

lemma show_nat_small: "n < 10 \<Longrightarrow> show_nat n = [digit n]"
  by (simp add: show_nat.simps)

lemma is_digit_digit: "is_digit (digit n)"
proof -
  have "n mod 10 < length ''0123456789''" by simp
  then have "''0123456789'' ! (n mod 10) \<in> set ''0123456789''" by (rule nth_mem)
  then show ?thesis by (simp only: is_digit_def digit.simps)
qed

lemma show_nat_digits: "list_all is_digit (show_nat n)"
proof (induction n rule: show_nat.induct)
  case (1 n)
  show ?case
  proof (cases "n < 10")
    case True
    then show ?thesis using is_digit_digit [of n] by (simp add: show_nat_small del: digit.simps)
  next
    case False
    with "1" have "list_all is_digit (show_nat (n div 10))" by simp
    moreover have "show_nat n = show_nat (n div 10) @ [digit n]"
      using False by (subst show_nat.simps) simp
    ultimately show ?thesis using is_digit_digit [of n] by (simp del: digit.simps)
  qed
qed

lemma length_show_nat: "n < 10 ^ k \<Longrightarrow> 0 < k \<Longrightarrow> length (show_nat n) \<le> k"
proof (induction n arbitrary: k rule: show_nat.induct)
  case (1 n)
  show ?case
  proof (cases "n < 10")
    case True
    then show ?thesis using "1.prems" by (simp add: show_nat_small)
  next
    case False
    obtain j where k: "k = Suc j"
      using "1.prems"(2) by (cases k) auto
    have j: "0 < j"
    proof (rule ccontr)
      assume "\<not> 0 < j"
      with k "1.prems"(1) have "n < 10" by simp
      with False show False by simp
    qed
    have "n div 10 < 10 ^ j" using "1.prems"(1) k by (simp add: less_mult_imp_div_less mult.commute)
    with "1.IH" False j have "length (show_nat (n div 10)) \<le> j" by simp
    moreover have "show_nat n = show_nat (n div 10) @ [digit n]"
      using False by (subst show_nat.simps) simp
    ultimately show ?thesis using k by simp
  qed
qed

lemma addLeadingZeros_length:
  "n < 10 ^ k \<Longrightarrow> 0 < k \<Longrightarrow> length (addLeadingZeros n k) = k"
  using length_show_nat [of n k] by (simp add: addLeadingZeros_def)

lemma addLeadingZeros_digits: "list_all is_digit (addLeadingZeros n k)"
proof -
  have "is_digit (CHR ''0'')" by (simp add: is_digit_def)
  then show ?thesis
    using show_nat_digits [of n] by (auto simp: addLeadingZeros_def list_all_iff)
qed

lemma format_shape:
  assumes "year d < 10000" and "month d < 100" and "day d < 100"
  shows "is_yyyy_MM_dd (format_yyyy_MM_dd d)"
proof -
  define y where "y = addLeadingZeros (year d) 4"
  define m where "m = addLeadingZeros (month d) 2"
  define a where "a = addLeadingZeros (day d) 2"
  have ly: "length y = 4" unfolding y_def using assms(1) by (intro addLeadingZeros_length) simp_all
  have lm: "length m = 2" unfolding m_def using assms(2) by (intro addLeadingZeros_length) simp_all
  have la: "length a = 2" unfolding a_def using assms(3) by (intro addLeadingZeros_length) simp_all
  have dy: "list_all is_digit y" and dm: "list_all is_digit m" and da: "list_all is_digit a"
    unfolding y_def m_def a_def by (rule addLeadingZeros_digits)+
  have f: "format_yyyy_MM_dd d = y @ CHR ''-'' # m @ CHR ''-'' # a"
    by (simp add: format_yyyy_MM_dd_def y_def m_def a_def)
  show ?thesis
    unfolding f is_yyyy_MM_dd_def using ly lm la dy dm da
    by (simp add: nth_append)
qed

subsection \<open>While a store call is in flight\<close>

lemma aside_step: "loading s \<Longrightarrow> aside e \<Longrightarrow> note_part (step s e) = note_part s"
  by (cases e)
     (auto simp: note_part_def handler_defs split: list.splits outcome.splits)

lemma aside_run:
  "loading s \<Longrightarrow> list_all aside es \<Longrightarrow> note_part (run s es) = note_part s"
proof (induction es arbitrary: s)
  case Nil
  show ?case by simp
next
  case (Cons e es)
  from Cons.prems have e: "note_part (step s e) = note_part s" by (simp add: aside_step)
  with Cons.prems(1) have "loading (step s e)" by (simp add: note_part_def)
  with Cons.IH Cons.prems(2) have "note_part (run (step s e) es) = note_part (step s e)" by simp
  with e show ?case by simp
qed

lemma saving_step:
  "loading s \<Longrightarrow> \<not> fetchPending s \<Longrightarrow> deletePending s = 0 \<Longrightarrow> not_update_settled e \<Longrightarrow>
   flight_part (step s e) = flight_part s"
  by (cases e) (auto simp: flight_part_def handler_defs split: list.splits outcome.splits)

lemma saving_run:
  "loading s \<Longrightarrow> \<not> fetchPending s \<Longrightarrow> deletePending s = 0 \<Longrightarrow>
   list_all not_update_settled es \<Longrightarrow> flight_part (run s es) = flight_part s"
proof (induction es arbitrary: s)
  case Nil
  show ?case by simp
next
  case (Cons e es)
  from Cons.prems have e: "flight_part (step s e) = flight_part s"
    by (simp add: saving_step)
  with Cons.prems(1-3)
  have "loading (step s e)" "\<not> fetchPending (step s e)" "deletePending (step s e) = 0"
    by (simp_all add: flight_part_def)
  with Cons.IH Cons.prems(4)
  have "flight_part (run (step s e) es) = flight_part (step s e)" by simp
  with e show ?case by simp
qed

lemma idle_reachable:
  assumes "s = run (initial nid url st api) es0" and "\<not> loading s"
  shows "\<not> fetchPending s \<and> updatePending s = [] \<and> deletePending s = 0 \<and> noteID s = nid"
proof -
  have sf: "single_flight s" unfolding assms(1) by (rule single_flight_reachable)
  have n: "noteID s = nid" unfolding assms(1) by (simp add: initial_def)
  with sf assms(2) show ?thesis
    by (auto simp: single_flight_def mutations_in_flight_def split: if_splits)
qed

lemma editing_idle:
  assumes "s = run (initial nid url st api) es0" and "lifecycle_of s = Editing"
  shows "\<not> loading s \<and> isEditing s \<and> \<not> fetchPending s \<and> updatePending s = [] \<and>
         deletePending s = 0 \<and> noteID s = nid"
proof -
  from assms(2) have e: "\<not> loading s \<and> isEditing s"
    by (simp add: lifecycle_of_def split: if_splits)
  with idle_reachable [OF assms(1)] show ?thesis by simp
qed

section \<open>Loading the note\<close>

text \<open>
  C4. Whatever has happened on the page while the first fetch was in flight: if the
  fetch is rejected, or it is fulfilled and the store has no document at the page's id,
  the page calls \<open>router.push("/")\<close>, and what it holds and renders is still the empty
  content and no date of the mount: nothing of any document is shown.
\<close>

theorem load_failure_navigates_home:
  assumes "s = run (initial nid url st api) es" and "fetchPending s"
    and "r = Rejected \<or> store s nid = None"
    and "s' = step s (FetchSettled r)"
  shows "pushes s' = pushes s @ [''/''] \<and> noteContent s' = JStr [] \<and> createdAt s' = None \<and>
         noteBody (render s') = Markdown (JStr []) \<and> dateText (render s') = ''Loading...'' \<and>
         \<not> fetchPending s' \<and> lifecycle_of s' = Viewing"
proof -
  have "single_flight s" unfolding assms(1) by (rule single_flight_reachable)
  with assms(2) have i: "\<not> isEditing s" "noteContent s = JStr []" "createdAt s = None"
    by (simp_all add: single_flight_def)
  have n: "noteID s = nid" unfolding assms(1) by (simp add: initial_def)
  from assms(3) show ?thesis
  proof
    assume "r = Rejected"
    then show ?thesis
      unfolding assms(4) using assms(2) i by (simp add: handler_defs lifecycle_of_def)
  next
    assume "store s nid = None"
    then show ?thesis
      unfolding assms(4) using assms(2) i n
      by (cases r) (simp_all add: handler_defs lifecycle_of_def)
  qed
qed

theorem load_failure_navigates_home_witness:
  "fetchPending (run (initial ''missing'' ''u'' hello_store True) [ClickOptions]) \<and>
   hello_store ''missing'' = None \<and>
   pushes (step (run (initial ''missing'' ''u'' hello_store True) [ClickOptions])
            (FetchSettled Fulfilled)) = [''/''] \<and>
   noteBody (render (step (run (initial ''missing'' ''u'' hello_store True) [ClickOptions])
                       (FetchSettled Fulfilled))) = Markdown (JStr []) \<and>
   pushes (step (run (initial ''missing'' ''u'' hello_store True) [ClickOptions])
            (FetchSettled Rejected)) = [''/'']"
proof -
  have a: "fetchPending (run (initial ''missing'' ''u'' hello_store True) [ClickOptions])"
    and p: "pushes (run (initial ''missing'' ''u'' hello_store True) [ClickOptions]) = []"
    and b: "store (run (initial ''missing'' ''u'' hello_store True) [ClickOptions]) ''missing'' = None"
    and c: "hello_store ''missing'' = None"
    by (simp_all add: initial_def toggleDropdown_def hello_store_def)
  from load_failure_navigates_home [OF refl a disjI2 [OF b] refl]
       load_failure_navigates_home [OF refl a disjI1 [OF refl] refl] a c p
  show ?thesis by (simp only: simp_thms append_Nil)
qed

text \<open>
  C5. When the fetch is fulfilled with a document: if the \<open>createdAt\<close> field is missing
  (or holds any falsy value), the page stores and shows the literal \<open>Unknown\<close>; if it is
  a timestamp, the page stores and shows the date of that timestamp as formatted by
  \<open>format(date, "yyyy-MM-dd")\<close>, which for a calendar date (a year of at most four digits,
  a month and a day of at most two) has the form \<open>YYYY-MM-DD\<close>.
\<close>

theorem load_created_at_display:
  assumes "fetchPending s" and "store s (noteID s) = Some nd"
    and "s' = step s (FetchSettled Fulfilled)"
  shows "(\<not> truthy (createdAtTimestamp nd) \<longrightarrow>
            createdAt s' = Some ''Unknown'' \<and> dateText (render s') = ''Unknown'') \<and>
         (createdAtTimestamp nd = JTimestamp d \<longrightarrow>
            createdAt s' = Some (format_yyyy_MM_dd d) \<and>
            dateText (render s') = format_yyyy_MM_dd d \<and>
            (year d < 10000 \<and> month d < 100 \<and> day d < 100 \<longrightarrow>
               is_yyyy_MM_dd (format_yyyy_MM_dd d)))"
proof -
  have ne: "format_yyyy_MM_dd d \<noteq> []"
    by (simp add: format_yyyy_MM_dd_def)
  show ?thesis
    using assms ne format_shape [of d]
    by (auto simp: handler_defs Let_def)
qed

theorem load_created_at_display_witness:
  "fetchPending hello_page \<and>
   store hello_page (noteID hello_page) = Some hello_note \<and>
   createdAtTimestamp hello_note = JTimestamp \<lparr>year = 2024, month = 3, day = 7\<rparr> \<and>
   dateText (render (step hello_page (FetchSettled Fulfilled))) = ''2024-03-07'' \<and>
   is_yyyy_MM_dd ''2024-03-07'' \<and>
   fetchPending (initial ''abc123'' ''u'' blank_store True) \<and>
   blank_store ''abc123'' = Some \<lparr>content = JUndefined, createdAtTimestamp = JUndefined\<rparr> \<and>
   dateText (render (step (initial ''abc123'' ''u'' blank_store True) (FetchSettled Fulfilled))) =
     ''Unknown''"
proof -
  have a: "fetchPending hello_page" by (simp add: example_defs)
  have b: "store hello_page (noteID hello_page) = Some hello_note" by (simp add: example_defs)
  have c: "createdAtTimestamp hello_note = JTimestamp \<lparr>year = 2024, month = 3, day = 7\<rparr>"
    by (simp add: hello_note_def)
  have f: "format_yyyy_MM_dd \<lparr>year = 2024, month = 3, day = 7\<rparr> = ''2024-03-07''"
    by (simp add: format_yyyy_MM_dd_def addLeadingZeros_def show_nat.simps)
  from load_created_at_display [OF a b refl, of "\<lparr>year = 2024, month = 3, day = 7\<rparr>"] c f
  have one: "dateText (render (step hello_page (FetchSettled Fulfilled))) = ''2024-03-07'' \<and>
        is_yyyy_MM_dd ''2024-03-07''"
    by simp
  have a': "fetchPending (initial ''abc123'' ''u'' blank_store True)"
    by (simp add: initial_def)
  have b': "store (initial ''abc123'' ''u'' blank_store True)
              (noteID (initial ''abc123'' ''u'' blank_store True)) =
            Some \<lparr>content = JUndefined, createdAtTimestamp = JUndefined\<rparr>"
    by (simp add: initial_def blank_store_def)
  have d': "blank_store ''abc123'' = Some \<lparr>content = JUndefined, createdAtTimestamp = JUndefined\<rparr>"
    by (simp add: blank_store_def)
  from load_created_at_display [OF a' b' refl]
  have two: "dateText (render (step (initial ''abc123'' ''u'' blank_store True)
               (FetchSettled Fulfilled))) = ''Unknown''"
    by simp
  from a b c one a' d' two show ?thesis by blast
qed

text \<open>
  C10. From any state at all in which the fetch is in flight, whatever the page holds:
  when the fetch is fulfilled with a document whose \<open>content\<close> field is missing or holds
  a falsy value (\<open>undefined\<close>, \<open>null\<close>, \<open>false\<close>, \<open>0\<close>, \<open>NaN\<close>, the empty string), the
  page's content is set to the empty string, and that string is what the body is given:
  the markdown rendering when the page is not editing, which is so in every state
  reachable from the mount with the fetch still in flight.
\<close>

theorem load_falsy_content_empty:
  assumes "fetchPending s" and "store s (noteID s) = Some nd" and "\<not> truthy (content nd)"
    and "s' = step s (FetchSettled Fulfilled)"
  shows "noteContent s' = JStr [] \<and>
         noteBody (render s') = (if isEditing s then Textarea (JStr []) else Markdown (JStr [])) \<and>
         (s = run (initial nid url st api) es \<longrightarrow> noteBody (render s') = Markdown (JStr []))"
proof -
  have a: "noteContent s' = JStr [] \<and> isEditing s' = isEditing s"
    using assms by (auto simp: handler_defs Let_def js_or_def split: jsval.splits)
  then have b: "noteBody (render s') =
                  (if isEditing s then Textarea (JStr []) else Markdown (JStr []))"
    by (simp add: render_def)
  have c: "noteBody (render s') = Markdown (JStr [])" if r: "s = run (initial nid url st api) es"
  proof -
    have "single_flight s" unfolding r by (rule single_flight_reachable)
    with assms(1) have "\<not> isEditing s" by (simp add: single_flight_def)
    with b show ?thesis by simp
  qed
  from a b c show ?thesis by blast
qed

theorem load_falsy_content_empty_witness:
  "fetchPending stale_page \<and>
   noteContent stale_page = JStr ''stale'' \<and>
   store stale_page (noteID stale_page) =
     Some \<lparr>content = JUndefined, createdAtTimestamp = JUndefined\<rparr> \<and>
   \<not> truthy (content \<lparr>content = JUndefined, createdAtTimestamp = JUndefined\<rparr>) \<and>
   noteContent (step stale_page (FetchSettled Fulfilled)) = JStr [] \<and>
   noteBody (render (step stale_page (FetchSettled Fulfilled))) = Markdown (JStr [])"
proof -
  have a: "fetchPending stale_page"
    and b: "store stale_page (noteID stale_page) =
              Some \<lparr>content = JUndefined, createdAtTimestamp = JUndefined\<rparr>"
    and d: "noteContent stale_page = JStr ''stale''"
    and e: "\<not> isEditing stale_page"
    by (simp_all add: example_defs)
  have c: "\<not> truthy (content \<lparr>content = JUndefined, createdAtTimestamp = JUndefined\<rparr>)"
    by simp
  note th = load_falsy_content_empty [OF a b c refl]
  from th have one: "noteContent (step stale_page (FetchSettled Fulfilled)) = JStr []"
    by blast
  from th e have two: "noteBody (render (step stale_page (FetchSettled Fulfilled))) =
                         Markdown (JStr [])"
    by simp
  from a b c d one two show ?thesis by blast
qed

section \<open>Editing and saving\<close>

text \<open>
  C2. From any reachable state in which the page is editing, whatever the draft: after
  Save is clicked and the update is rejected, whatever other events come in between, the
  page is editing again, the rejected settlement has left the draft as it found it, the
  alert \<open>Failed to save the note.\<close> has been raised, and no update is in flight: nothing
  is retried. If the events in between leave the note alone (nothing is typed), the draft
  is the one from before the click, it is what the textarea shows, and the store is
  untouched.
\<close>

theorem save_failure_keeps_draft:
  assumes "s = run (initial nid url st api) es0" and "lifecycle_of s = Editing" and "mounted s"
    and "list_all not_update_settled es"
    and "s1 = run s (ClickEditSave # es)" and "s2 = step s1 (UpdateSettled Rejected)"
  shows "lifecycle_of s1 = Saving \<and> lifecycle_of s2 = Editing \<and>
         noteContent s2 = noteContent s1 \<and>
         (list_all aside es \<longrightarrow>
            noteContent s2 = noteContent s \<and> noteBody (render s2) = Textarea (noteContent s) \<and>
            store s2 = store s) \<and>
         alerts s2 = alerts s1 @ [''Failed to save the note.''] \<and>
         updatePending s2 = [] \<and> mutations_in_flight s2 = 0"
proof -
  note i = editing_idle [OF assms(1,2)]
  define t where "t = step s ClickEditSave"
  have t: "loading t" "isEditing t" "noteContent t = noteContent s"
    "updatePending t = [noteContent s]" "deletePending t = 0" "\<not> fetchPending t"
    "store t = store s"
    using i assms(3) by (simp_all add: t_def handler_defs)
  have "flight_part s1 = flight_part t"
    unfolding assms(5) using saving_run [OF t(1) t(6) t(5) assms(4)] by (simp add: t_def)
  with t have s1: "loading s1" "isEditing s1" "updatePending s1 = [noteContent s]"
    "deletePending s1 = 0"
    by (simp_all add: flight_part_def)
  have a: "lifecycle_of s1 = Saving \<and> lifecycle_of s2 = Editing \<and>
           noteContent s2 = noteContent s1 \<and>
           alerts s2 = alerts s1 @ [''Failed to save the note.''] \<and>
           updatePending s2 = [] \<and> mutations_in_flight s2 = 0"
    unfolding assms(6) using s1
    by (simp add: lifecycle_of_def mutations_in_flight_def handler_defs)
  have b: "noteContent s2 = noteContent s \<and> noteBody (render s2) = Textarea (noteContent s) \<and>
           store s2 = store s"
    if q: "list_all aside es"
  proof -
    have "note_part s1 = note_part t"
      unfolding assms(5) using aside_run [OF t(1) q] by (simp add: t_def)
    with t have "noteContent s1 = noteContent s" "store s1 = store s"
      by (simp_all add: note_part_def)
    then show ?thesis
      unfolding assms(6) using s1 by (simp add: handler_defs)
  qed
  from a b show ?thesis by blast
qed

theorem save_failure_keeps_draft_witness:
  "lifecycle_of (run hello_page [FetchSettled Fulfilled, ClickEditSave, Change ''draft'']) = Editing \<and>
   mounted (run hello_page [FetchSettled Fulfilled, ClickEditSave, Change ''draft'']) \<and>
   list_all not_update_settled [ClickOptions, ClickCopyURL, ClipboardSettled Rejected] \<and>
   list_all aside [ClickOptions, ClickCopyURL, ClipboardSettled Rejected] \<and>
   noteContent (run hello_page [FetchSettled Fulfilled, ClickEditSave, Change ''draft'']) =
     JStr ''draft'' \<and>
   lifecycle_of (step (run (run hello_page [FetchSettled Fulfilled, ClickEditSave, Change ''draft''])
       (ClickEditSave # [ClickOptions, ClickCopyURL, ClipboardSettled Rejected]))
       (UpdateSettled Rejected)) = Editing \<and>
   noteContent (step (run (run hello_page [FetchSettled Fulfilled, ClickEditSave, Change ''draft''])
       (ClickEditSave # [ClickOptions, ClickCopyURL, ClipboardSettled Rejected]))
       (UpdateSettled Rejected)) = JStr ''draft'' \<and>
   mutations_in_flight (step (run (run hello_page [FetchSettled Fulfilled, ClickEditSave, Change ''draft''])
       (ClickEditSave # [ClickOptions, ClickCopyURL, ClipboardSettled Rejected]))
       (UpdateSettled Rejected)) = 0"
proof -
  define S where "S = run hello_page [FetchSettled Fulfilled, ClickEditSave, Change ''draft'']"
  define E where "E = [ClickOptions, ClickCopyURL, ClipboardSettled Rejected]"
  define S2 where "S2 = step (run S (ClickEditSave # E)) (UpdateSettled Rejected)"
  have h: "S = run (initial ''abc123'' ''https://annoote.example/abc123'' hello_store True)
             [FetchSettled Fulfilled, ClickEditSave, Change ''draft'']"
    by (simp only: S_def hello_page_def)
  have a: "lifecycle_of S = Editing" and b: "mounted S" and d: "noteContent S = JStr ''draft''"
    by (simp_all add: S_def example_defs handler_defs lifecycle_of_def js_or_def)
  have c: "list_all not_update_settled E" and e: "list_all aside E"
    by (simp_all add: E_def)
  note th = save_failure_keeps_draft [OF h a b c refl S2_def]
  from th have l: "lifecycle_of S2 = Editing" and m: "mutations_in_flight S2 = 0"
    and n: "list_all aside E \<longrightarrow> noteContent S2 = noteContent S"
    by blast+
  from n e d have "noteContent S2 = JStr ''draft''" by simp
  with a b c d e l m show ?thesis
    unfolding S2_def S_def E_def by blast
qed

text \<open>
  C3, as amended. From any reachable state in which the page is editing, for every
  string \<open>c1\<close> typed into the textarea: if Save is clicked and the update is fulfilled,
  and in between the draft is not retyped and nobody else writes to the store (other
  events that leave the note alone may come), the page ends in viewing, the content it
  hands to the markdown rendering is exactly \<open>c1\<close>, the stored document has \<open>c1\<close> as its
  content, and a fresh page mounted on that store loads exactly \<open>c1\<close>.
\<close>

theorem save_success_round_trip:
  assumes "s = run (initial nid url st api) es0" and "lifecycle_of s = Editing" and "mounted s"
    and "list_all aside es"
    and "s1 = run s (Change c1 # ClickEditSave # es)"
    and "s2 = step s1 (UpdateSettled Fulfilled)"
  shows "lifecycle_of s2 = Viewing \<and> noteContent s2 = JStr c1 \<and>
         noteBody (render s2) = Markdown (JStr c1) \<and>
         store s2 nid = map_option (\<lambda>nd. nd\<lparr>content := JStr c1\<rparr>) (store s nid) \<and>
         (store s nid \<noteq> None \<longrightarrow>
            noteContent (run (initial nid url (store s2) api) [FetchSettled Fulfilled]) = JStr c1)"
proof -
  note i = editing_idle [OF assms(1,2)]
  define t where "t = step (step s (Change c1)) ClickEditSave"
  have t: "loading t" "isEditing t" "noteContent t = JStr c1"
    "updatePending t = [JStr c1]" "deletePending t = 0" "store t = store s"
    using i assms(3) by (simp_all add: t_def handler_defs)
  have "note_part s1 = note_part t"
    unfolding assms(5) using aside_run [OF t(1) assms(4)] by (simp add: t_def)
  with t have s1: "loading s1" "isEditing s1" "noteContent s1 = JStr c1"
    "updatePending s1 = [JStr c1]" "deletePending s1 = 0" "store s1 = store s"
    by (simp_all add: note_part_def)
  have n1: "noteID s1 = nid"
    unfolding assms(5) using i by (simp del: run_Cons)
  have a: "lifecycle_of s2 = Viewing \<and> noteContent s2 = JStr c1 \<and>
           noteBody (render s2) = Markdown (JStr c1)"
    unfolding assms(6) using s1 by (simp add: lifecycle_of_def handler_defs)
  have b: "store s2 nid = map_option (\<lambda>nd. nd\<lparr>content := JStr c1\<rparr>) (store s nid)"
    unfolding assms(6) using s1 n1 by (simp add: handler_defs)
  have c: "noteContent (run (initial nid url (store s2) api) [FetchSettled Fulfilled]) = JStr c1"
    if "store s nid \<noteq> None"
  proof -
    from that obtain nd where "store s nid = Some nd" by auto
    with b have "store s2 nid = Some (nd\<lparr>content := JStr c1\<rparr>)" by simp
    then show ?thesis
      by (auto simp: initial_def handler_defs js_or_def Let_def split: jsval.splits)
  qed
  from a b c show ?thesis by blast
qed

theorem save_success_round_trip_witness:
  "lifecycle_of (run hello_page [FetchSettled Fulfilled, ClickEditSave]) = Editing \<and>
   mounted (run hello_page [FetchSettled Fulfilled, ClickEditSave]) \<and>
   list_all aside [ClickOptions, ClickCopyURL, ClipboardSettled Fulfilled] \<and>
   store (run hello_page [FetchSettled Fulfilled, ClickEditSave]) ''abc123'' = Some hello_note \<and>
   lifecycle_of (step (run (run hello_page [FetchSettled Fulfilled, ClickEditSave])
       (Change ''updated text'' # ClickEditSave #
        [ClickOptions, ClickCopyURL, ClipboardSettled Fulfilled]))
       (UpdateSettled Fulfilled)) = Viewing \<and>
   noteBody (render (step (run (run hello_page [FetchSettled Fulfilled, ClickEditSave])
       (Change ''updated text'' # ClickEditSave #
        [ClickOptions, ClickCopyURL, ClipboardSettled Fulfilled]))
       (UpdateSettled Fulfilled))) = Markdown (JStr ''updated text'') \<and>
   noteContent (run (initial ''abc123'' ''https://annoote.example/abc123''
       (store (step (run (run hello_page [FetchSettled Fulfilled, ClickEditSave])
          (Change ''updated text'' # ClickEditSave #
           [ClickOptions, ClickCopyURL, ClipboardSettled Fulfilled]))
          (UpdateSettled Fulfilled))) True) [FetchSettled Fulfilled]) = JStr ''updated text''"
proof -
  have h: "run hello_page [FetchSettled Fulfilled, ClickEditSave] =
           run (initial ''abc123'' ''https://annoote.example/abc123'' hello_store True)
             [FetchSettled Fulfilled, ClickEditSave]"
    by (simp only: hello_page_def)
  have a: "lifecycle_of (run hello_page [FetchSettled Fulfilled, ClickEditSave]) = Editing"
    and b: "mounted (run hello_page [FetchSettled Fulfilled, ClickEditSave])"
    and d: "store (run hello_page [FetchSettled Fulfilled, ClickEditSave]) ''abc123'' =
            Some hello_note"
    by (simp_all add: example_defs handler_defs lifecycle_of_def js_or_def)
  have c: "list_all aside [ClickOptions, ClickCopyURL, ClipboardSettled Fulfilled]"
    by simp
  from save_success_round_trip [OF h a b c refl refl] a b c d show ?thesis
    by (simp only: simp_thms option.distinct)
qed

text \<open>
  The textarea is not disabled while the update is in flight. The update is issued with
  the draft of the click; what is typed afterwards stays in \<open>noteContent\<close>. Here \<open>a\<close> is
  typed while editing, Save is clicked, \<open>ab\<close> is typed, and the update is fulfilled: the
  page is viewing and shows \<open>ab\<close>, and the store holds \<open>a\<close>.
\<close>

theorem save_round_trip_counterexample:
  "lifecycle_of (run hello_page [FetchSettled Fulfilled, ClickEditSave, Change ''a'']) = Editing \<and>
   noteContent (run hello_page [FetchSettled Fulfilled, ClickEditSave, Change ''a'']) = JStr ''a'' \<and>
   lifecycle_of (run hello_page [FetchSettled Fulfilled, ClickEditSave, Change ''a'',
      ClickEditSave, Change ''ab'', UpdateSettled Fulfilled]) = Viewing \<and>
   noteBody (render (run hello_page [FetchSettled Fulfilled, ClickEditSave, Change ''a'',
      ClickEditSave, Change ''ab'', UpdateSettled Fulfilled])) = Markdown (JStr ''ab'') \<and>
   map_option content (store (run hello_page [FetchSettled Fulfilled, ClickEditSave, Change ''a'',
      ClickEditSave, Change ''ab'', UpdateSettled Fulfilled]) ''abc123'') = Some (JStr ''a'') \<and>
   JStr ''ab'' \<noteq> JStr ''a''"
  by (simp add: example_defs handler_defs lifecycle_of_def js_or_def)

text \<open>
  C6. In every reachable state: at most one update or delete is in flight; while the
  first fetch or a mutation is in flight the lifecycle is loading, saving or deleting;
  and in those three the Edit/Save button is disabled, clicking it leaves the whole
  state as it is, and no event at all raises the number of mutations in flight.
\<close>

theorem edit_save_single_flight:
  assumes "s = run (initial nid url st api) es"
  shows "mutations_in_flight s \<le> 1 \<and>
         (fetchPending s \<or> 0 < mutations_in_flight s \<longrightarrow> busy (lifecycle_of s)) \<and>
         (busy (lifecycle_of s) \<longrightarrow>
            editSaveDisabled (render s) \<and> step s ClickEditSave = s \<and>
            mutations_in_flight (step s e) \<le> mutations_in_flight s)"
proof -
  have sf: "single_flight s" unfolding assms(1) by (rule single_flight_reachable)
  have b: "busy (lifecycle_of s) = loading s"
    by (simp add: busy_def lifecycle_of_def)
  have one: "mutations_in_flight s \<le> 1"
    using sf by (auto simp: single_flight_def mutations_in_flight_def split: if_splits)
  have two: "loading s" if "fetchPending s \<or> 0 < mutations_in_flight s"
    using sf that by (auto simp: single_flight_def split: if_splits)
  have three: "editSaveDisabled (render s) \<and> step s ClickEditSave = s" if "loading s"
    using that by (simp add: render_def)
  have four: "mutations_in_flight (step s e) \<le> mutations_in_flight s" if "loading s"
    using that
    by (cases e)
       (auto simp: mutations_in_flight_def handler_defs Let_def
             split: outcome.splits list.splits nat.splits option.splits jsval.splits)
  from one two three four show ?thesis unfolding b by blast
qed

theorem edit_save_single_flight_witness:
  "busy (lifecycle_of (run hello_page [FetchSettled Fulfilled, ClickEditSave, ClickEditSave])) \<and>
   lifecycle_of (run hello_page [FetchSettled Fulfilled, ClickEditSave, ClickEditSave]) = Saving \<and>
   mutations_in_flight (run hello_page [FetchSettled Fulfilled, ClickEditSave, ClickEditSave]) \<le> 1 \<and>
   editSaveDisabled (render (run hello_page [FetchSettled Fulfilled, ClickEditSave, ClickEditSave])) \<and>
   step (run hello_page [FetchSettled Fulfilled, ClickEditSave, ClickEditSave]) ClickEditSave =
     run hello_page [FetchSettled Fulfilled, ClickEditSave, ClickEditSave]"
proof -
  have h: "run hello_page [FetchSettled Fulfilled, ClickEditSave, ClickEditSave] =
           run (initial ''abc123'' ''https://annoote.example/abc123'' hello_store True)
             [FetchSettled Fulfilled, ClickEditSave, ClickEditSave]"
    by (simp only: hello_page_def)
  have a: "lifecycle_of (run hello_page [FetchSettled Fulfilled, ClickEditSave, ClickEditSave]) =
           Saving"
    by (simp add: example_defs handler_defs lifecycle_of_def js_or_def)
  then have b: "busy (lifecycle_of (run hello_page [FetchSettled Fulfilled, ClickEditSave, ClickEditSave]))"
    by (simp add: busy_def)
  from edit_save_single_flight [OF h] a b show ?thesis
    by (simp only: simp_thms)
qed

section \<open>The overlays\<close>







section \<open>Deleting the note\<close>

text \<open>
  C8, as amended. A delete is issued by no event but a click on the enabled Delete
  button of the visible delete-confirmation dialog. From a reachable state with that
  dialog open and nothing loading, after the click (and any events that leave the note
  alone) the lifecycle is deleting. If the delete is fulfilled, the page calls
  \<open>router.push("/")\<close>, clears \<open>loading\<close> and closes the dialog, and the document is gone
  from the store; the page does not clear the rest of its state: content, date and
  editing flag are what they were. If the delete is rejected, the lifecycle is what it
  was before the click, the dialog is closed, the alert \<open>Failed to delete the note.\<close> has
  been raised, and neither navigation nor the store has been touched.
\<close>

theorem delete_confirmed_outcomes:
  assumes "s = run (initial nid url st api) es0" and "mounted s" and "showModal s"
    and "\<not> loading s" and "list_all aside es"
    and "s1 = run s (ClickConfirmDelete # es)" and "s2 = step s1 (DeleteSettled r)"
  shows "(deletePending w < deletePending (step w e) \<longrightarrow>
            e = ClickConfirmDelete \<and> deleteConfirm (render w) \<and> \<not> deleteDisabled (render w)) \<and>
         lifecycle_of s1 = Deleting \<and> deletePending s1 = 1 \<and>
         (r = Fulfilled \<longrightarrow>
            pushes s2 = pushes s @ [''/''] \<and> store s2 nid = None \<and>
            \<not> loading s2 \<and> \<not> showModal s2 \<and> noteContent s2 = noteContent s \<and>
            createdAt s2 = createdAt s \<and> isEditing s2 = isEditing s) \<and>
         (r = Rejected \<longrightarrow>
            lifecycle_of s2 = lifecycle_of s \<and> \<not> showModal s2 \<and>
            alerts s2 = alerts s1 @ [''Failed to delete the note.''] \<and>
            pushes s2 = pushes s \<and> store s2 = store s \<and> noteContent s2 = noteContent s) \<and>
         deletePending s2 = 0"
proof -
  note i = idle_reachable [OF assms(1,4)]
  have only: "e = ClickConfirmDelete \<and> deleteConfirm (render w) \<and> \<not> deleteDisabled (render w)"
    if "deletePending w < deletePending (step w e)"
    using that
    by (cases e)
       (auto simp: handler_defs Let_def
             split: if_splits outcome.splits list.splits nat.splits option.splits jsval.splits)
  define t where "t = step s ClickConfirmDelete"
  have t: "loading t" "isEditing t = isEditing s" "noteContent t = noteContent s"
    "createdAt t = createdAt s" "updatePending t = []" "deletePending t = 1"
    "store t = store s" "pushes t = pushes s"
    using i assms(2-4) by (simp_all add: t_def handler_defs)
  have "note_part s1 = note_part t"
    unfolding assms(6) using aside_run [OF t(1) assms(5)] by (simp add: t_def)
  with t have s1: "loading s1" "isEditing s1 = isEditing s" "noteContent s1 = noteContent s"
    "createdAt s1 = createdAt s" "updatePending s1 = []" "deletePending s1 = 1"
    "store s1 = store s" "pushes s1 = pushes s"
    by (simp_all add: note_part_def)
  have n1: "noteID s1 = nid"
    unfolding assms(6) using i by (simp del: run_Cons)
  have del: "lifecycle_of s1 = Deleting \<and> deletePending s1 = 1"
    using s1 by (simp add: lifecycle_of_def)
  have rest: "(r = Fulfilled \<longrightarrow>
            pushes s2 = pushes s @ [''/''] \<and> store s2 nid = None \<and>
            \<not> loading s2 \<and> \<not> showModal s2 \<and> noteContent s2 = noteContent s \<and>
            createdAt s2 = createdAt s \<and> isEditing s2 = isEditing s) \<and>
         (r = Rejected \<longrightarrow>
            lifecycle_of s2 = lifecycle_of s \<and> \<not> showModal s2 \<and>
            alerts s2 = alerts s1 @ [''Failed to delete the note.''] \<and>
            pushes s2 = pushes s \<and> store s2 = store s \<and> noteContent s2 = noteContent s) \<and>
         deletePending s2 = 0"
    unfolding assms(7) using s1 n1 assms(4)
    by (cases r) (simp_all add: handler_defs lifecycle_of_def)
  from only del rest show ?thesis by blast
qed

theorem delete_confirmed_outcomes_witness:
  "mounted (run hello_page [FetchSettled Fulfilled, ClickOptions, ClickDeleteItem]) \<and>
   showModal (run hello_page [FetchSettled Fulfilled, ClickOptions, ClickDeleteItem]) \<and>
   \<not> loading (run hello_page [FetchSettled Fulfilled, ClickOptions, ClickDeleteItem]) \<and>
   list_all aside [ClickOptions] \<and>
   lifecycle_of (run hello_page [FetchSettled Fulfilled, ClickOptions, ClickDeleteItem]) =
     Viewing \<and>
   deletePending (run hello_page [FetchSettled Fulfilled, ClickOptions, ClickDeleteItem]) <
     deletePending (step (run hello_page [FetchSettled Fulfilled, ClickOptions, ClickDeleteItem])
        ClickConfirmDelete) \<and>
   deleteConfirm (render (run hello_page [FetchSettled Fulfilled, ClickOptions, ClickDeleteItem])) \<and>
   pushes (step (run (run hello_page [FetchSettled Fulfilled, ClickOptions, ClickDeleteItem])
     (ClickConfirmDelete # [ClickOptions])) (DeleteSettled Fulfilled)) = [''/''] \<and>
   lifecycle_of (step (run (run hello_page [FetchSettled Fulfilled, ClickOptions, ClickDeleteItem])
     (ClickConfirmDelete # [ClickOptions])) (DeleteSettled Rejected)) = Viewing \<and>
   \<not> showModal (step (run (run hello_page [FetchSettled Fulfilled, ClickOptions, ClickDeleteItem])
     (ClickConfirmDelete # [ClickOptions])) (DeleteSettled Rejected))"
proof -
  define S where "S = run hello_page [FetchSettled Fulfilled, ClickOptions, ClickDeleteItem]"
  define E where "E = [ClickOptions]"
  define F where "F = step (run S (ClickConfirmDelete # E)) (DeleteSettled Fulfilled)"
  define R where "R = step (run S (ClickConfirmDelete # E)) (DeleteSettled Rejected)"
  have h: "S = run (initial ''abc123'' ''https://annoote.example/abc123'' hello_store True)
             [FetchSettled Fulfilled, ClickOptions, ClickDeleteItem]"
    by (simp only: S_def hello_page_def)
  have a: "mounted S" and b: "showModal S" and c: "\<not> loading S" and p: "pushes S = []"
    and l: "lifecycle_of S = Viewing"
    and g: "deletePending S < deletePending (step S ClickConfirmDelete)"
    by (simp_all add: S_def example_defs handler_defs lifecycle_of_def js_or_def)
  have d: "list_all aside E"
    by (simp add: E_def)
  note f = delete_confirmed_outcomes [OF h a b c d refl F_def, where w = S and e = ClickConfirmDelete]
  note r = delete_confirmed_outcomes [OF h a b c d refl R_def, where w = S and e = ClickConfirmDelete]
  from f g have one: "deleteConfirm (render S)" by blast
  from f have "pushes F = pushes S @ [''/'']" by blast
  with p have two: "pushes F = [''/'']" by simp
  from r have "lifecycle_of R = lifecycle_of S" and four: "\<not> showModal R" by blast+
  with l have three: "lifecycle_of R = Viewing" by simp
  from a b c d l g one two three four show ?thesis
    unfolding F_def R_def S_def E_def by blast
qed

text \<open>
  After a fulfilled delete the page still holds and renders the note it has deleted: the
  handler calls \<open>router.push\<close> and then sets two flags, and nothing resets the content or
  the date, which differ from those of a fresh mount.
\<close>

theorem delete_keeps_state_counterexample:
  "pushes (run hello_page [FetchSettled Fulfilled, ClickOptions, ClickDeleteItem,
      ClickConfirmDelete, DeleteSettled Fulfilled]) = [''/''] \<and>
   noteContent (run hello_page [FetchSettled Fulfilled, ClickOptions, ClickDeleteItem,
      ClickConfirmDelete, DeleteSettled Fulfilled]) = JStr ''hello'' \<and>
   createdAt (run hello_page [FetchSettled Fulfilled, ClickOptions, ClickDeleteItem,
      ClickConfirmDelete, DeleteSettled Fulfilled]) = Some ''2024-03-07'' \<and>
   noteBody (render (run hello_page [FetchSettled Fulfilled, ClickOptions, ClickDeleteItem,
      ClickConfirmDelete, DeleteSettled Fulfilled])) = Markdown (JStr ''hello'') \<and>
   noteContent (initial ''abc123'' ''https://annoote.example/abc123'' hello_store True) = JStr []"
  by (simp add: example_defs handler_defs js_or_def format_yyyy_MM_dd_def addLeadingZeros_def
        show_nat.simps)

end
